theory Spec2Isabelle
  imports Main
begin

section \<open>ComplexPropertyCollection: the data model\<close>

text \<open>
  The embedding follows \<^verbatim>\<open>src/js/ComplexProperties/ComplexPropertyCollection.ts\<close>.
  Elements are objects compared by reference (\<^verbatim>\<open>indexOf\<close> uses strict equality), so an
  element is its reference, a natural number. What the file reads of an element lives in
  the state, indexed by the reference: its \<^verbatim>\<open>OnChange\<close> array, its constructor and
  the payload it last loaded.
\<close>

type_synonym ref = nat

type_synonym cls = string

text \<open>
  The function objects that the file stores in, and looks for in, an element's
  \<^verbatim>\<open>OnChange\<close> array. \<^verbatim>\<open>this.ItemChanged\<close> is the method of the prototype;
  \<^verbatim>\<open>this.ItemChanged.bind(this)\<close> is a new function object at every evaluation,
  numbered here by a counter of the state.
\<close>

datatype fn = ItemChanged_method | ItemChanged_bound nat

text \<open>The parsed, loosely typed payload (\<^verbatim>\<open>any\<close>): null, text, arrays and keyed objects.\<close>

datatype js = JNull | JStr string | JArr "js list" | JObj "(string \<times> js) list"

record state =
  items :: "ref list"
  addedItems :: "ref list"
  modifiedItems :: "ref list"
  removedItems :: "ref list"
  OnChange :: "ref \<Rightarrow> fn list"
  constructor_of :: "ref \<Rightarrow> cls"
  loaded :: "ref \<Rightarrow> js option"
  next_ref :: nat
  next_fn :: nat
  changed_signals :: nat

datatype error =
    ArgumentOutOfRange
  | PropertyCollectionSizeMismatch
  | PropertyTypeIncompatibleWhenUpdatingCollection
  | ServiceLocalException
  | FactoryFailure
  | TypeError

text \<open>A call either returns or throws; the state it leaves behind is kept in both cases.\<close>

datatype outcome = Returns state | Throws error state

fun state_of :: "outcome \<Rightarrow> state" where
  "state_of (Returns s) = s"
| "state_of (Throws e s) = s"

definition new_collection :: state where
  "new_collection =
     \<lparr>items = [], addedItems = [], modifiedItems = [], removedItems = [],
      OnChange = (\<lambda>r. []), constructor_of = (\<lambda>r. []), loaded = (\<lambda>r. None),
      next_ref = 0, next_fn = 0, changed_signals = 0\<rparr>"

section \<open>Helpers of other files\<close>

text \<open>
  Modelled from the spec: \<^verbatim>\<open>ArrayHelper.RemoveEntry\<close> (ExtensionMethods, not in this
  file). The call sites name what it stands for (\<^verbatim>\<open>this.items.Remove(complexProperty)\<close>):
  it removes the first entry identical to the argument and tells whether there was one.
\<close>

definition RemoveEntry :: "'a list \<Rightarrow> 'a \<Rightarrow> bool \<times> 'a list" where
  "RemoveEntry array entry = (entry \<in> set array, remove1 entry array)"

text \<open>
  Modelled from the spec: \<^verbatim>\<open>ComplexProperty.Changed\<close> of the collection itself (the
  base class is not in this file): the collection-level "changed" signal, counted.
\<close>

definition Changed :: "state \<Rightarrow> state" where
  "Changed s = s\<lparr>changed_signals := Suc (changed_signals s)\<rparr>"

text \<open>
  Modelled from the spec: the constructor of an element (an element class, not in this
  file). A new object takes the next reference, has the class it was built from, no
  subscriber and no loaded payload.
\<close>

definition new_object :: "cls \<Rightarrow> state \<Rightarrow> ref \<times> state" where
  "new_object c s =
     (next_ref s,
      s\<lparr>OnChange := (OnChange s)(next_ref s := []),
        constructor_of := (constructor_of s)(next_ref s := c),
        loaded := (loaded s)(next_ref s := None),
        next_ref := Suc (next_ref s)\<rparr>)"

text \<open>
  Modelled from the spec: \<^verbatim>\<open>LoadFromXmlJsObject\<close> of an element (an element class, not
  in this file): the element loads its own state from the payload.
\<close>

definition element_LoadFromXmlJsObject :: "ref \<Rightarrow> js \<Rightarrow> state \<Rightarrow> state" where
  "element_LoadFromXmlJsObject r jsonProperty s = s\<lparr>loaded := (loaded s)(r := Some jsonProperty)\<rparr>"

section \<open>Query surface\<close>

definition Count :: "state \<Rightarrow> nat" where
  "Count s = length (items s)"

text \<open>\<^verbatim>\<open>this.items[index]\<close>: \<^verbatim>\<open>undefined\<close> (here \<open>None\<close>) outside the array.\<close>

definition item_at :: "ref list \<Rightarrow> int \<Rightarrow> ref option" where
  "item_at xs index = (if 0 \<le> index \<and> index < int (length xs) then Some (xs ! nat index) else None)"

text \<open>\<^verbatim>\<open>_getItem\<close>, the bounds-checked read that \<^verbatim>\<open>UpdateFrom...\<close> uses.\<close>

definition getItem :: "int \<Rightarrow> state \<Rightarrow> error + ref" where
  "getItem index s =
     (if index < 0 \<or> index \<ge> int (Count s) then Inl ArgumentOutOfRange
      else Inr (items s ! nat index))"

definition Contains :: "ref \<Rightarrow> state \<Rightarrow> bool" where
  "Contains complexProperty s = (complexProperty \<in> set (items s))"

section \<open>Mutation and change tracking\<close>

text \<open>
  \<^verbatim>\<open>EwsLogging.Assert\<close> only logs: \<^verbatim>\<open>LoadFromXmlJsObject\<close> of this file calls
  \<^verbatim>\<open>Assert(false, ...)\<close> and goes on to the next statement. The assertions therefore
  leave no trace in the model.
\<close>

definition ClearChangeLog :: "state \<Rightarrow> state" where
  "ClearChangeLog s = s\<lparr>removedItems := [], addedItems := [], modifiedItems := []\<rparr>"

definition InternalAdd :: "ref \<Rightarrow> bool \<Rightarrow> state \<Rightarrow> state" where
  "InternalAdd complexProperty loading s =
     (if complexProperty \<notin> set (items s) then
        let s1 = s\<lparr>items := items s @ [complexProperty]\<rparr>;
            s2 = (if \<not> loading then
                    s1\<lparr>removedItems := snd (RemoveEntry (removedItems s1) complexProperty),
                       addedItems := addedItems s1 @ [complexProperty]\<rparr>
                  else s1);
            s3 = s2\<lparr>OnChange := (OnChange s2)
                       (complexProperty := OnChange s2 complexProperty @ [ItemChanged_bound (next_fn s2)]),
                    next_fn := Suc (next_fn s2)\<rparr>
        in Changed s3
      else s)"

definition InternalRemove :: "ref \<Rightarrow> state \<Rightarrow> bool \<times> state" where
  "InternalRemove complexProperty s =
     (if fst (RemoveEntry (items s) complexProperty) then
        let s1 = s\<lparr>items := snd (RemoveEntry (items s) complexProperty)\<rparr>;
            s2 = s1\<lparr>OnChange := (OnChange s1)
                       (complexProperty :=
                          snd (RemoveEntry (OnChange s1 complexProperty) ItemChanged_method))\<rparr>;
            s3 = (if complexProperty \<notin> set (addedItems s2) then
                    s2\<lparr>removedItems := removedItems s2 @ [complexProperty]\<rparr>
                  else s2\<lparr>addedItems := snd (RemoveEntry (addedItems s2) complexProperty)\<rparr>);
            s4 = s3\<lparr>modifiedItems := snd (RemoveEntry (modifiedItems s3) complexProperty)\<rparr>
        in (True, Changed s4)
      else (False, s))"

text \<open>
  \<^verbatim>\<open>this.InternalRemove(this.items[index])\<close>, after an assertion on the index and
  with no \<^verbatim>\<open>throw\<close>. Outside the array the argument is \<^verbatim>\<open>undefined\<close>, which
  \<^verbatim>\<open>RemoveEntry\<close> does not find among the items, so that \<^verbatim>\<open>InternalRemove\<close>
  returns false and nothing changes.
\<close>

definition InternalRemoveAt :: "int \<Rightarrow> state \<Rightarrow> outcome" where
  "InternalRemoveAt index s =
     (case item_at (items s) index of
        Some complexProperty \<Rightarrow> Returns (snd (InternalRemove complexProperty s))
      | None \<Rightarrow> Returns s)"

function InternalClear :: "state \<Rightarrow> state" where
  "InternalClear s = (if Count s > 0 then InternalClear (state_of (InternalRemoveAt 0 s)) else s)"
  by pat_completeness auto
termination
  by (relation "measure (\<lambda>s. length (items s))")
     (auto simp: Count_def InternalRemoveAt_def InternalRemove_def RemoveEntry_def item_at_def
        Changed_def Let_def length_remove1)

declare InternalClear.simps [simp del]

definition ItemChanged :: "ref \<Rightarrow> state \<Rightarrow> state" where
  "ItemChanged property s =
     (if property \<notin> set (addedItems s) then
        (if property \<notin> set (modifiedItems s) then
           Changed (s\<lparr>modifiedItems := modifiedItems s @ [property]\<rparr>)
         else s)
      else s)"

definition RemoveFromChangeLog :: "ref \<Rightarrow> state \<Rightarrow> state" where
  "RemoveFromChangeLog complexProperty s =
     (let s1 = s\<lparr>removedItems := snd (RemoveEntry (removedItems s) complexProperty)\<rparr>;
          s2 = s1\<lparr>modifiedItems := snd (RemoveEntry (modifiedItems s1) complexProperty)\<rparr>
      in s2\<lparr>addedItems := snd (RemoveEntry (addedItems s2) complexProperty)\<rparr>)"

text \<open>
  Modelled from the spec: \<^verbatim>\<open>ComplexProperty.Changed\<close> of an element (the base class is
  not in this file): the element's change notification calls every function of its
  \<^verbatim>\<open>OnChange\<close> array with the element. A bound function runs \<^verbatim>\<open>ItemChanged\<close> on the
  collection; the bare method has no \<^verbatim>\<open>this\<close> and throws.
\<close>

fun invoke :: "fn \<Rightarrow> ref \<Rightarrow> state \<Rightarrow> outcome" where
  "invoke (ItemChanged_bound k) x s = Returns (ItemChanged x s)"
| "invoke ItemChanged_method x s = Throws TypeError s"

fun run_handlers :: "fn list \<Rightarrow> ref \<Rightarrow> state \<Rightarrow> outcome" where
  "run_handlers [] x s = Returns s"
| "run_handlers (h # hs) x s =
     (case invoke h x s of
        Returns s' \<Rightarrow> run_handlers hs x s'
      | Throws e s' \<Rightarrow> Throws e s')"

definition element_Changed :: "ref \<Rightarrow> state \<Rightarrow> outcome" where
  "element_Changed x s = run_handlers (OnChange s x) x s"

section \<open>Ingestion\<close>

text \<open>
  What the concrete subclass and the other modules supply. A factory returns an instance
  (of the class given), returns null, or fails: the file's own note says that the default
  factory of a polymorphic collection fails. \<^verbatim>\<open>TypeSystem.GetJsObjectTypeName\<close> and
  the \<^verbatim>\<open>instanceof\<close> test on constructors are taken as parameters.
\<close>

datatype created = Instance cls | Null | Fails

record config =
  CreateComplexProperty :: "string \<Rightarrow> created"
  CreateDefaultComplexProperty :: created
  GetCollectionItemXmlElementName :: "ref option \<Rightarrow> string option"
  GetJsObjectTypeName :: "js \<Rightarrow> string option"
  instanceof :: "cls \<Rightarrow> cls \<Rightarrow> bool"

text \<open>JavaScript truthiness of a string that may be undefined: defined and not empty.\<close>

fun truthy :: "string option \<Rightarrow> bool" where
  "truthy None = False"
| "truthy (Some n) = (n \<noteq> [])"

definition isArray :: "js \<Rightarrow> bool" where
  "isArray v = (case v of JArr xs \<Rightarrow> True | _ \<Rightarrow> False)"

text \<open>The entries of a payload that is an array.\<close>

definition entries :: "js \<Rightarrow> js list" where
  "entries v = (case v of JArr xs \<Rightarrow> xs | _ \<Rightarrow> [])"

text \<open>The decimal name of an array index, as \<^verbatim>\<open>for ... in\<close> gives it for a string.\<close>

definition digit :: "nat \<Rightarrow> char" where
  "digit d = char_of (48 + d)"

fun decimal :: "nat \<Rightarrow> string" where
  "decimal n = (if n < 10 then [digit n] else decimal (n div 10) @ [digit (n mod 10)])"

text \<open>
  \<^verbatim>\<open>for (let key in jsObjectCollection)\<close> with \<^verbatim>\<open>jsObjectCollection[key]\<close>: the
  enumerable keys and their values. A keyed object gives its entries, a string its
  characters under their indices, null nothing.
\<close>

fun own_properties :: "js \<Rightarrow> (string \<times> js) list" where
  "own_properties (JObj kvs) = kvs"
| "own_properties (JStr str) = map (\<lambda>(i, c). (decimal i, JStr [c])) (enumerate 0 str)"
| "own_properties (JArr xs) = map (\<lambda>(i, x). (decimal i, x)) (enumerate 0 xs)"
| "own_properties JNull = []"

text \<open>
  Modelled from the spec: \<^verbatim>\<open>EwsServiceJsonReader.ReadAsArray\<close> (not in this file)
  normalizes the value of a key to a list, wrapping a bare value as a one-element list.
\<close>

definition ReadAsArray :: "js \<Rightarrow> string \<Rightarrow> js list" where
  "ReadAsArray jsonProperty key =
     (case map_of (own_properties jsonProperty) key of
        None \<Rightarrow> []
      | Some v \<Rightarrow> if isArray v then entries v else [v])"

text \<open>The shape normalization that opens both \<^verbatim>\<open>CreateFrom...\<close> and \<^verbatim>\<open>UpdateFrom...\<close>.\<close>

definition normalize_payload :: "config \<Rightarrow> js \<Rightarrow> js list" where
  "normalize_payload cfg jsObjectCollection =
     (if isArray jsObjectCollection then entries jsObjectCollection
      else
        (let collectionElement = GetCollectionItemXmlElementName cfg None;
             typeName = GetJsObjectTypeName cfg jsObjectCollection
         in if collectionElement = None \<or> (truthy typeName \<and> collectionElement = typeName)
            then [jsObjectCollection]
            else concat (map (\<lambda>(key, collectionObj).
                     if take 2 key = ''__'' then []
                     else if isArray collectionObj then entries collectionObj
                     else ReadAsArray jsObjectCollection key)
                   (own_properties jsObjectCollection))))"

text \<open>The factory call shared by both loops: the type hint if there is one, else the default.\<close>

definition resolve :: "config \<Rightarrow> js \<Rightarrow> created" where
  "resolve cfg jsonProperty =
     (if truthy (GetJsObjectTypeName cfg jsonProperty)
      then CreateComplexProperty cfg (the (GetJsObjectTypeName cfg jsonProperty))
      else CreateDefaultComplexProperty cfg)"

fun create_loop :: "config \<Rightarrow> js list \<Rightarrow> state \<Rightarrow> outcome" where
  "create_loop cfg [] s = Returns s"
| "create_loop cfg (jsonProperty # rest) s =
     (if jsonProperty \<noteq> JNull then
        (case resolve cfg jsonProperty of
           Fails \<Rightarrow> Throws FactoryFailure s
         | Null \<Rightarrow> create_loop cfg rest s
         | Instance c \<Rightarrow>
             (let (complexProperty, s1) = new_object c s;
                  s2 = element_LoadFromXmlJsObject complexProperty jsonProperty s1
              in create_loop cfg rest (InternalAdd complexProperty True s2)))
      else create_loop cfg rest s)"

definition CreateFromXmlJsObjectCollection :: "config \<Rightarrow> js \<Rightarrow> state \<Rightarrow> outcome" where
  "CreateFromXmlJsObjectCollection cfg jsObjectCollection s =
     create_loop cfg (normalize_payload cfg jsObjectCollection) s"

text \<open>
  \<^verbatim>\<open>expectedComplexProperty == null || !(actualComplexProperty instanceof
  expectedComplexProperty.constructor)\<close>.
\<close>

definition incompatible :: "config \<Rightarrow> state \<Rightarrow> ref \<Rightarrow> created \<Rightarrow> bool" where
  "incompatible cfg s actualComplexProperty expectedComplexProperty =
     (case expectedComplexProperty of
        Instance c \<Rightarrow> \<not> instanceof cfg (constructor_of s actualComplexProperty) c
      | _ \<Rightarrow> True)"

text \<open>
  The loop of \<^verbatim>\<open>UpdateFromXmlJsObjectCollection\<close>, with its running \<^verbatim>\<open>index\<close>. The
  instance that the factory builds here is used for its constructor only and then
  dropped, so the loop keeps the class alone.
\<close>

fun update_loop :: "config \<Rightarrow> js list \<Rightarrow> int \<Rightarrow> state \<Rightarrow> outcome" where
  "update_loop cfg [] index s = Returns s"
| "update_loop cfg (jsonProperty # rest) index s =
     (if jsonProperty \<noteq> JNull then
        (let expectedComplexProperty = resolve cfg jsonProperty
         in if expectedComplexProperty = Fails then Throws FactoryFailure s
            else
              (case getItem index s of
                 Inl e \<Rightarrow> Throws e s
               | Inr actualComplexProperty \<Rightarrow>
                   if incompatible cfg s actualComplexProperty expectedComplexProperty
                   then Throws PropertyTypeIncompatibleWhenUpdatingCollection s
                   else update_loop cfg rest (index + 1)
                          (element_LoadFromXmlJsObject actualComplexProperty jsonProperty s)))
      else Throws ServiceLocalException s)"

definition UpdateFromXmlJsObjectCollection :: "config \<Rightarrow> js \<Rightarrow> state \<Rightarrow> outcome" where
  "UpdateFromXmlJsObjectCollection cfg jsObjectCollection s =
     (let collection = normalize_payload cfg jsObjectCollection
      in if Count s \<noteq> length collection then Throws PropertyCollectionSizeMismatch s
         else update_loop cfg collection 0 s)"

section \<open>Emission\<close>

datatype XmlNamespace = Types | Messages

datatype xml_event = WriteStartElement XmlNamespace string | WriteEndElement | Schema string

type_synonym writer = "xml_event list"

text \<open>
  The collaborators of \<^verbatim>\<open>WriteSetUpdateToXml\<close>: the owning entity gives the name of its
  delete-field element, the property definition writes its own schema identity.
\<close>

record ServiceObject =
  GetDeleteFieldXmlElementName :: string

record PropertyDefinition =
  WriteToXml :: "writer \<Rightarrow> writer"

definition ShouldWriteToRequest :: "state \<Rightarrow> bool" where
  "ShouldWriteToRequest s = (Count s > 0)"

definition WriteSetUpdateToXml ::
    "writer \<Rightarrow> ServiceObject \<Rightarrow> PropertyDefinition \<Rightarrow> state \<Rightarrow> bool \<times> writer" where
  "WriteSetUpdateToXml writer ewsObject propertyDefinition s =
     (if Count s = 0 then
        (let w1 = writer @ [WriteStartElement Types (GetDeleteFieldXmlElementName ewsObject)];
             w2 = WriteToXml propertyDefinition w1
         in (True, w2 @ [WriteEndElement]))
      else (False, writer))"

definition WriteDeleteUpdateToXml :: "writer \<Rightarrow> ServiceObject \<Rightarrow> state \<Rightarrow> bool \<times> writer" where
  "WriteDeleteUpdateToXml writer ewsObject s = (False, writer)"

section \<open>Sequences of public operations\<close>

text \<open>
  The public surface as one datatype, to speak of the states that calls can reach.
  \<open>perform\<close> gives the state that a call leaves behind, whether it returned or threw.
  \<open>New\<close> is the caller building an element, \<open>Add\<close> is \<^verbatim>\<open>InternalAdd\<close> without the
  loading flag, as the subclasses call it, and \<open>ElementChanged\<close> is the change
  notification of an element.
\<close>

datatype operation =
    New cls
  | Add ref
  | Remove ref
  | RemoveAt int
  | Clear
  | CreateFromWire js
  | UpdateFromWire js
  | ElementChanged ref
  | ClearLog
  | RemoveFromLog ref

fun perform :: "config \<Rightarrow> operation \<Rightarrow> state \<Rightarrow> state" where
  "perform cfg (New c) s = snd (new_object c s)"
| "perform cfg (Add x) s = InternalAdd x False s"
| "perform cfg (Remove x) s = snd (InternalRemove x s)"
| "perform cfg (RemoveAt index) s = state_of (InternalRemoveAt index s)"
| "perform cfg Clear s = InternalClear s"
| "perform cfg (CreateFromWire p) s = state_of (CreateFromXmlJsObjectCollection cfg p s)"
| "perform cfg (UpdateFromWire p) s = state_of (UpdateFromXmlJsObjectCollection cfg p s)"
| "perform cfg (ElementChanged x) s = state_of (element_Changed x s)"
| "perform cfg ClearLog s = ClearChangeLog s"
| "perform cfg (RemoveFromLog x) s = RemoveFromChangeLog x s"

fun run :: "config \<Rightarrow> operation list \<Rightarrow> state \<Rightarrow> state" where
  "run cfg [] s = s"
| "run cfg (op # ops) s = run cfg ops (perform cfg op s)"


section \<open>Predicates and reference definitions for the properties\<close>

text \<open>
  The sequence and the \<open>added\<close> and \<open>modified\<close> sets hold no element twice, and an
  added element is a member. Every call keeps this (lemma \<open>wf_run\<close> below).
\<close>

definition wf :: "state \<Rightarrow> bool" where
  "wf s = (distinct (items s) \<and> distinct (addedItems s) \<and> distinct (modifiedItems s)
           \<and> set (addedItems s) \<subseteq> set (items s))"

text \<open>
  \<^verbatim>\<open>Clear\<close> in the words of the specification: as many \<^verbatim>\<open>Remove\<close> calls as there are
  elements, each on the element that is first at that moment.
\<close>

definition remove_first :: "state \<Rightarrow> state" where
  "remove_first s = (case items s of [] \<Rightarrow> s | x # xs \<Rightarrow> snd (InternalRemove x s))"

definition Clear_by_removals :: "state \<Rightarrow> state" where
  "Clear_by_removals s = (remove_first ^^ Count s) s"

text \<open>
  A positional entry that \<^verbatim>\<open>UpdateFromXmlJsObjectCollection\<close> applies to the element
  \<open>actual\<close>: it is not null and resolves to a type that the element is an instance of.
\<close>

definition entry_accepted :: "config \<Rightarrow> state \<Rightarrow> ref \<Rightarrow> js \<Rightarrow> bool" where
  "entry_accepted cfg s actual jsonProperty =
     (jsonProperty \<noteq> JNull \<and> \<not> incompatible cfg s actual (resolve cfg jsonProperty))"

section \<open>Example inputs\<close>

definition example_state :: state where
  "example_state =
     new_collection\<lparr>items := [0, 1, 2], addedItems := [1], modifiedItems := [0, 2], next_ref := 3\<rparr>"

definition example_config :: config where
  "example_config =
     \<lparr>CreateComplexProperty = (\<lambda>n. if n = ''A'' \<or> n = ''B'' then Instance n else Null),
      CreateDefaultComplexProperty = Instance ''A'',
      GetCollectionItemXmlElementName = (\<lambda>x. Some ''Entry''),
      GetJsObjectTypeName = (\<lambda>v. map_option (\<lambda>t. case t of JStr n \<Rightarrow> n | _ \<Rightarrow> [])
                                  (map_of (own_properties v) ''__type'')),
      instanceof = (\<lambda>actual expected. actual = expected)\<rparr>"

definition example_entity :: ServiceObject where
  "example_entity = \<lparr>GetDeleteFieldXmlElementName = ''DeleteItemField''\<rparr>"

definition example_property :: PropertyDefinition where
  "example_property = \<lparr>WriteToXml = (\<lambda>w. w @ [Schema ''item:Categories''])\<rparr>"

definition typed_state :: state where
  "typed_state =
     new_collection\<lparr>items := [0, 1, 2], constructor_of := (\<lambda>r. ''A''), next_ref := 3\<rparr>"

definition update_payload :: "js list" where
  "update_payload = [JObj [(''Name'', JStr ''n'')], JObj [(''__type'', JStr ''B'')], JNull]"

definition update_payload_null :: "js list" where
  "update_payload_null = [JObj [(''Name'', JStr ''n'')], JObj [(''__type'', JStr ''A'')], JNull]"

definition create_payload :: js where
  "create_payload =
     JObj [(''__type'', JStr ''X''),
           (''Entry'', JArr [JObj [], JNull, JObj [(''__type'', JStr ''B'')]])]"

definition stale_notification :: "operation list" where
  "stale_notification = [CreateFromWire (JArr [JObj []]), Remove 0, ElementChanged 0]"

section \<open>The invariant of the change sets\<close>

lemma wf_new_collection: "wf new_collection"
  by (simp add: wf_def new_collection_def)

lemma wf_InternalAdd: "wf s \<Longrightarrow> wf (InternalAdd x loading s)"
  by (auto simp: wf_def InternalAdd_def RemoveEntry_def Changed_def Let_def)

lemma wf_InternalRemove: "wf s \<Longrightarrow> wf (snd (InternalRemove x s))"
  by (auto simp: wf_def InternalRemove_def RemoveEntry_def Changed_def Let_def)

lemma wf_InternalRemoveAt: "wf s \<Longrightarrow> wf (state_of (InternalRemoveAt index s))"
  by (simp add: InternalRemoveAt_def wf_InternalRemove split: option.splits)

lemma wf_InternalClear: "wf s \<Longrightarrow> wf (InternalClear s)"
proof (induction s rule: InternalClear.induct)
  case (1 s)
  then show ?case by (subst InternalClear.simps) (simp add: wf_InternalRemoveAt)
qed

lemma wf_ItemChanged: "wf s \<Longrightarrow> wf (ItemChanged x s)"
  by (auto simp: wf_def ItemChanged_def Changed_def)

lemma wf_run_handlers: "wf s \<Longrightarrow> wf (state_of (run_handlers hs x s))"
proof (induction hs arbitrary: s)
  case Nil
  then show ?case by simp
next
  case (Cons h hs)
  then show ?case by (cases h) (simp_all add: wf_ItemChanged)
qed

lemma wf_ClearChangeLog: "wf s \<Longrightarrow> wf (ClearChangeLog s)"
  by (simp add: wf_def ClearChangeLog_def)

lemma wf_RemoveFromChangeLog: "wf s \<Longrightarrow> wf (RemoveFromChangeLog x s)"
  by (auto simp: wf_def RemoveFromChangeLog_def RemoveEntry_def Let_def dest: notin_set_remove1)

lemma wf_create_loop: "wf s \<Longrightarrow> wf (state_of (create_loop cfg xs s))"
proof (induction xs arbitrary: s)
  case Nil
  then show ?case by simp
next
  case (Cons p ps)
  have fresh: "wf (InternalAdd (next_ref s) True
                 (element_LoadFromXmlJsObject (next_ref s) p (snd (new_object c s))))" for c
    by (rule wf_InternalAdd)
       (use Cons.prems in \<open>simp add: wf_def new_object_def element_LoadFromXmlJsObject_def\<close>)
  show ?case
    using Cons.prems fresh
    by (auto simp: Let_def new_object_def intro!: Cons.IH split: created.splits)
qed

lemma wf_update_loop: "wf s \<Longrightarrow> wf (state_of (update_loop cfg xs index s))"
proof (induction xs arbitrary: index s)
  case Nil
  then show ?case by simp
next
  case (Cons p ps)
  have "wf (element_LoadFromXmlJsObject r p s)" for r
    using Cons.prems by (simp add: wf_def element_LoadFromXmlJsObject_def)
  then show ?case
    using Cons.prems by (auto simp: Let_def intro!: Cons.IH split: sum.splits)
qed

lemma wf_new_object: "wf s \<Longrightarrow> wf (snd (new_object c s))"
  by (simp add: wf_def new_object_def)

lemma wf_perform: "wf s \<Longrightarrow> wf (perform cfg op s)"
  by (cases op)
     (simp_all add: wf_new_object wf_InternalAdd wf_InternalRemove wf_InternalRemoveAt wf_InternalClear
        wf_create_loop wf_update_loop wf_run_handlers wf_ClearChangeLog wf_RemoveFromChangeLog
        CreateFromXmlJsObjectCollection_def UpdateFromXmlJsObjectCollection_def
        element_Changed_def Let_def)

lemma wf_run: "wf s \<Longrightarrow> wf (run cfg ops s)"
  by (induction ops arbitrary: s) (simp_all add: wf_perform)

text \<open>Every state that a sequence of calls reaches from a new collection is well formed.\<close>

lemma wf_reachable: "wf (run cfg ops new_collection)"
  by (rule wf_run) (rule wf_new_collection)

section \<open>Remove\<close>

text \<open>
  Claim C1. \<^verbatim>\<open>InternalRemove\<close> of an element that is not a member returns false and
  changes nothing. Of a member it returns true, takes the element out of the sequence,
  and then: an element of \<open>added\<close> is purged from \<open>added\<close> and \<open>removed\<close> stays as it
  was; any other element is appended to \<open>removed\<close>. In both cases the element is purged
  from \<open>modified\<close> and one "changed" signal is emitted. \<^verbatim>\<open>RemoveEntry\<close> takes out the
  first occurrence, so the element is gone from a list that held it once, which is what
  the lists of every reachable state do (\<open>wf_reachable\<close>).
\<close>

theorem InternalRemove_effects:
  "(x \<notin> set (items s) \<longrightarrow> InternalRemove x s = (False, s)) \<and>
   (x \<in> set (items s) \<longrightarrow>
      fst (InternalRemove x s) = True \<and>
      items (snd (InternalRemove x s)) = remove1 x (items s) \<and>
      (distinct (items s) \<longrightarrow> x \<notin> set (items (snd (InternalRemove x s)))) \<and>
      (x \<in> set (addedItems s) \<longrightarrow>
         addedItems (snd (InternalRemove x s)) = remove1 x (addedItems s) \<and>
         (distinct (addedItems s) \<longrightarrow> x \<notin> set (addedItems (snd (InternalRemove x s)))) \<and>
         removedItems (snd (InternalRemove x s)) = removedItems s) \<and>
      (x \<notin> set (addedItems s) \<longrightarrow>
         addedItems (snd (InternalRemove x s)) = addedItems s \<and>
         removedItems (snd (InternalRemove x s)) = removedItems s @ [x]) \<and>
      modifiedItems (snd (InternalRemove x s)) = remove1 x (modifiedItems s) \<and>
      (distinct (modifiedItems s) \<longrightarrow> x \<notin> set (modifiedItems (snd (InternalRemove x s)))) \<and>
      changed_signals (snd (InternalRemove x s)) = Suc (changed_signals s))"
  by (simp add: InternalRemove_def RemoveEntry_def Changed_def Let_def)

theorem InternalRemove_effects_witness:
  "5 \<notin> set (items example_state) \<and> InternalRemove 5 example_state = (False, example_state) \<and>
   1 \<in> set (items example_state) \<and> 1 \<in> set (addedItems example_state) \<and>
   distinct (items example_state) \<and> distinct (addedItems example_state) \<and>
   distinct (modifiedItems example_state) \<and>
   fst (InternalRemove 1 example_state) = True \<and>
   items (snd (InternalRemove 1 example_state)) = [0, 2] \<and>
   addedItems (snd (InternalRemove 1 example_state)) = [] \<and>
   removedItems (snd (InternalRemove 1 example_state)) = [] \<and>
   2 \<in> set (items example_state) \<and> 2 \<notin> set (addedItems example_state) \<and>
   fst (InternalRemove 2 example_state) = True \<and>
   items (snd (InternalRemove 2 example_state)) = [0, 1] \<and>
   addedItems (snd (InternalRemove 2 example_state)) = [1] \<and>
   removedItems (snd (InternalRemove 2 example_state)) = [2] \<and>
   modifiedItems (snd (InternalRemove 2 example_state)) = [0] \<and>
   changed_signals (snd (InternalRemove 2 example_state)) = 1"
  using InternalRemove_effects [of 5 example_state] InternalRemove_effects [of 1 example_state]
    InternalRemove_effects [of 2 example_state]
  by (simp add: example_state_def new_collection_def)

section \<open>Stale notifications\<close>

text \<open>
  \<^verbatim>\<open>InternalRemove\<close> looks for \<^verbatim>\<open>this.ItemChanged\<close> in the element's \<^verbatim>\<open>OnChange\<close>
  array, and \<^verbatim>\<open>InternalAdd\<close> has stored \<^verbatim>\<open>this.ItemChanged.bind(this)\<close> there: the
  bound function is another object, it is not found, and the subscription stays.
\<close>

lemma InternalRemove_keeps_bound_subscription:
  "ItemChanged_method \<notin> set (OnChange s x) \<Longrightarrow> OnChange (snd (InternalRemove x s)) = OnChange s"
  by (auto simp: InternalRemove_def RemoveEntry_def Changed_def Let_def remove1_idem)

text \<open>
  Claim C2 says that \<open>modified\<close> holds members of the sequence only, in every reachable
  state, because a removed element is unsubscribed. On the code the sequence of calls
  \<open>stale_notification\<close> (ingest one element, remove it, let it raise its change
  notification) ends with the removed element in \<open>modified\<close> and an empty sequence.
\<close>

theorem removed_element_notification_marks_modified:
  "items (run example_config stale_notification new_collection) = [] \<and>
   modifiedItems (run example_config stale_notification new_collection) = [0] \<and>
   \<not> set (modifiedItems (run example_config stale_notification new_collection))
        \<subseteq> set (items (run example_config stale_notification new_collection))"
  by (simp add: stale_notification_def example_config_def new_collection_def
        CreateFromXmlJsObjectCollection_def normalize_payload_def isArray_def entries_def
        resolve_def new_object_def element_LoadFromXmlJsObject_def InternalAdd_def
        InternalRemove_def RemoveEntry_def Changed_def element_Changed_def ItemChanged_def Let_def)

section \<open>Update from the wire\<close>

text \<open>
  Claim C3. When the normalized payload has another length than the collection,
  \<^verbatim>\<open>UpdateFromXmlJsObjectCollection\<close> throws the size mismatch and the whole state (the
  sequence, the elements and the three change sets) is as before the call.
\<close>

theorem UpdateFrom_size_mismatch:
  "Count s \<noteq> length (normalize_payload cfg jsObjectCollection) \<Longrightarrow>
   UpdateFromXmlJsObjectCollection cfg jsObjectCollection s = Throws PropertyCollectionSizeMismatch s"
  by (simp add: UpdateFromXmlJsObjectCollection_def Let_def)

theorem UpdateFrom_size_mismatch_witness:
  "Count example_state \<noteq> length (normalize_payload example_config (JArr [JObj []])) \<and>
   UpdateFromXmlJsObjectCollection example_config (JArr [JObj []]) example_state =
     Throws PropertyCollectionSizeMismatch example_state \<and>
   Count example_state \<noteq> length (normalize_payload example_config (JObj [(''__type'', JStr ''X''), (''Entry'', JArr [JObj [], JObj []])])) \<and>
   UpdateFromXmlJsObjectCollection example_config (JObj [(''__type'', JStr ''X''), (''Entry'', JArr [JObj [], JObj []])]) example_state =
     Throws PropertyCollectionSizeMismatch example_state"
  using UpdateFrom_size_mismatch [of example_state example_config "JArr [JObj []]"]
     UpdateFrom_size_mismatch [of example_state example_config "JObj [(''__type'', JStr ''X''), (''Entry'', JArr [JObj [], JObj []])]"]
  by (simp add: example_state_def new_collection_def example_config_def Count_def normalize_payload_def
        isArray_def entries_def)

section \<open>Add\<close>

text \<open>
  Claim C4. \<^verbatim>\<open>InternalAdd\<close> of an element that is already a member leaves the whole
  state as it was: the sequence, \<open>added\<close>, \<open>modified\<close>, \<open>removed\<close>, and the count of
  "changed" signals.
\<close>

theorem InternalAdd_present:
  "x \<in> set (items s) \<Longrightarrow> InternalAdd x loading s = s"
  by (simp add: InternalAdd_def)

theorem InternalAdd_present_witness:
  "(1::nat) \<in> set (items example_state) \<and> InternalAdd 1 False example_state = example_state
   \<and> InternalAdd 1 True example_state = example_state"
  using InternalAdd_present [of 1 example_state False] InternalAdd_present [of 1 example_state True]
  by (simp add: example_state_def new_collection_def)

section \<open>Serialization of the empty collection\<close>

text \<open>
  Claim C5. \<^verbatim>\<open>ShouldWriteToRequest\<close> is false exactly when the count is zero, and
  \<^verbatim>\<open>WriteSetUpdateToXml\<close> returns true exactly when the count is zero. It then writes
  the start of the owning entity's delete-field element, what the property definition
  writes, and the end of the element; otherwise it writes nothing.
\<close>

theorem empty_collection_serialization:
  "(ShouldWriteToRequest s = False \<longleftrightarrow> Count s = 0) \<and>
   (fst (WriteSetUpdateToXml writer ewsObject propertyDefinition s) = True \<longleftrightarrow> Count s = 0) \<and>
   (Count s = 0 \<longrightarrow>
      snd (WriteSetUpdateToXml writer ewsObject propertyDefinition s) =
        WriteToXml propertyDefinition
          (writer @ [WriteStartElement Types (GetDeleteFieldXmlElementName ewsObject)])
        @ [WriteEndElement]) \<and>
   (Count s \<noteq> 0 \<longrightarrow> snd (WriteSetUpdateToXml writer ewsObject propertyDefinition s) = writer)"
  by (simp add: ShouldWriteToRequest_def WriteSetUpdateToXml_def Let_def)

theorem empty_collection_serialization_witness:
  "Count new_collection = 0 \<and> ShouldWriteToRequest new_collection = False \<and>
   WriteSetUpdateToXml [] example_entity example_property new_collection =
     (True, [WriteStartElement Types ''DeleteItemField'', Schema ''item:Categories'', WriteEndElement]) \<and>
   Count example_state \<noteq> 0 \<and> ShouldWriteToRequest example_state = True \<and>
   WriteSetUpdateToXml [] example_entity example_property example_state = (False, [])"
  using empty_collection_serialization [of new_collection "[]" example_entity example_property]
    empty_collection_serialization [of example_state "[]" example_entity example_property]
  by (simp add: example_state_def new_collection_def example_entity_def example_property_def
        Count_def ShouldWriteToRequest_def WriteSetUpdateToXml_def)

section \<open>RemoveAt\<close>

text \<open>
  Claim C6 says that an index outside the range makes \<^verbatim>\<open>InternalRemoveAt\<close> fail with
  an out-of-range error. The code asserts the range ("index is out of range."), and
  \<^verbatim>\<open>_getItem\<close> throws on the same test, but \<^verbatim>\<open>InternalRemoveAt\<close> goes on after the
  assertion, reads \<^verbatim>\<open>undefined\<close> from the array and returns without an error. At the
  indices 5 and -1 of a collection of three elements:
\<close>

theorem InternalRemoveAt_out_of_range_returns:
  "InternalRemoveAt 5 example_state = Returns example_state \<and>
   InternalRemoveAt 5 example_state \<noteq> Throws ArgumentOutOfRange example_state \<and>
   InternalRemoveAt (- 1) example_state = Returns example_state \<and>
   getItem 5 example_state = Inl ArgumentOutOfRange \<and>
   getItem (- 1) example_state = Inl ArgumentOutOfRange"
  by (simp add: InternalRemoveAt_def item_at_def getItem_def Count_def example_state_def
        new_collection_def)

text \<open>Inside the range \<^verbatim>\<open>InternalRemoveAt\<close> is \<^verbatim>\<open>InternalRemove\<close> of the element there.\<close>

lemma InternalRemoveAt_in_range:
  "0 \<le> index \<Longrightarrow> index < int (Count s) \<Longrightarrow>
   InternalRemoveAt index s = Returns (snd (InternalRemove (items s ! nat index) s))"
  by (simp add: InternalRemoveAt_def item_at_def Count_def)

section \<open>Create from the wire\<close>

lemma InternalAdd_loading_frame:
  "addedItems (InternalAdd x True s) = addedItems s \<and>
   modifiedItems (InternalAdd x True s) = modifiedItems s \<and>
   removedItems (InternalAdd x True s) = removedItems s"
  by (simp add: InternalAdd_def Changed_def Let_def)

lemma create_loop_frame:
  "addedItems (state_of (create_loop cfg xs s)) = addedItems s \<and>
   modifiedItems (state_of (create_loop cfg xs s)) = modifiedItems s \<and>
   removedItems (state_of (create_loop cfg xs s)) = removedItems s"
proof (induction xs arbitrary: s)
  case Nil
  show ?case by simp
next
  case (Cons p ps)
  show ?case
    by (simp add: Cons.IH InternalAdd_loading_frame new_object_def element_LoadFromXmlJsObject_def
          Let_def split: created.splits)
qed

text \<open>
  Claim C7. \<^verbatim>\<open>CreateFromXmlJsObjectCollection\<close> adds every element with the loading
  flag: whatever the payload, and whether the call returns or a factory fails, the
  \<open>added\<close>, \<open>modified\<close> and \<open>removed\<close> sets are afterwards what they were before.
\<close>

theorem CreateFrom_change_sets_unchanged:
  "addedItems (state_of (CreateFromXmlJsObjectCollection cfg jsObjectCollection s)) = addedItems s \<and>
   modifiedItems (state_of (CreateFromXmlJsObjectCollection cfg jsObjectCollection s)) = modifiedItems s \<and>
   removedItems (state_of (CreateFromXmlJsObjectCollection cfg jsObjectCollection s)) = removedItems s"
  by (simp add: CreateFromXmlJsObjectCollection_def create_loop_frame)

theorem CreateFrom_change_sets_unchanged_witness:
  "addedItems (state_of (CreateFromXmlJsObjectCollection example_config create_payload example_state))
     = [1] \<and>
   modifiedItems (state_of (CreateFromXmlJsObjectCollection example_config create_payload example_state))
     = [0, 2] \<and>
   removedItems (state_of (CreateFromXmlJsObjectCollection example_config create_payload example_state))
     = [] \<and>
   items (state_of (CreateFromXmlJsObjectCollection example_config create_payload example_state))
     = [0, 1, 2, 3, 4]"
  using CreateFrom_change_sets_unchanged [of example_config create_payload example_state]
  by (simp add: example_state_def new_collection_def example_config_def create_payload_def
        CreateFromXmlJsObjectCollection_def normalize_payload_def isArray_def entries_def
        resolve_def new_object_def element_LoadFromXmlJsObject_def InternalAdd_def Changed_def
        Let_def)

section \<open>Clear\<close>

lemma InternalRemoveAt_0:
  "Count s > 0 \<Longrightarrow> state_of (InternalRemoveAt 0 s) = remove_first s"
  by (cases "items s") (simp_all add: Count_def InternalRemoveAt_def item_at_def remove_first_def)

lemma remove_first_items:
  "items (remove_first s) = tl (items s)"
  by (cases "items s")
     (simp_all add: remove_first_def InternalRemove_def RemoveEntry_def Changed_def Let_def)

lemma InternalClear_funpow:
  "length (items s) = n \<Longrightarrow> InternalClear s = (remove_first ^^ n) s"
proof (induction n arbitrary: s)
  case 0
  then show ?case by (subst InternalClear.simps) (simp add: Count_def)
next
  case (Suc n)
  then have pos: "Count s > 0" by (simp add: Count_def)
  have "length (items (remove_first s)) = n"
    using Suc.prems by (simp add: remove_first_items)
  then have "InternalClear (remove_first s) = (remove_first ^^ n) (remove_first s)"
    by (rule Suc.IH)
  moreover have "InternalClear s = InternalClear (remove_first s)"
    using pos InternalRemoveAt_0 [OF pos] by (subst InternalClear.simps) simp
  ultimately show ?case by (simp add: funpow_swap1)
qed

lemma InternalClear_items: "items (InternalClear s) = []"
proof (induction s rule: InternalClear.induct)
  case (1 s)
  then show ?case by (subst InternalClear.simps) (simp add: Count_def)
qed

text \<open>
  Claim C8. \<^verbatim>\<open>InternalClear\<close> ends in the state that as many removals of the
  then-first element as the collection has elements end in, and the sequence is then
  empty.
\<close>

theorem InternalClear_is_repeated_removal:
  "InternalClear s = Clear_by_removals s \<and> items (InternalClear s) = []"
proof
  show "InternalClear s = Clear_by_removals s"
    unfolding Clear_by_removals_def Count_def by (rule InternalClear_funpow) (rule refl)
  show "items (InternalClear s) = []"
    by (rule InternalClear_items)
qed

theorem InternalClear_is_repeated_removal_witness:
  "InternalClear example_state = Clear_by_removals example_state \<and>
   items (Clear_by_removals example_state) = [] \<and>
   addedItems (Clear_by_removals example_state) = [] \<and>
   modifiedItems (Clear_by_removals example_state) = [] \<and>
   removedItems (Clear_by_removals example_state) = [0, 2] \<and>
   changed_signals (Clear_by_removals example_state) = 3"
  using InternalClear_is_repeated_removal [of example_state]
  by (simp add: Clear_by_removals_def remove_first_def example_state_def new_collection_def Count_def
        InternalRemove_def RemoveEntry_def Changed_def Let_def numeral_3_eq_3)

section \<open>No rollback in the update\<close>

lemma update_loop_loaded_frame:
  "r \<notin> set (drop k (items s)) \<Longrightarrow>
   loaded (state_of (update_loop cfg xs (int k) s)) r = loaded s r"
proof (induction xs arbitrary: k s)
  case Nil
  show ?case by simp
next
  case (Cons x xs)
  have step: "loaded (state_of (update_loop cfg xs (int (Suc k)) s')) r = loaded s' r"
    if "items s' = items s" for s'
  proof (rule Cons.IH)
    have "set (drop (Suc k) (items s)) \<subseteq> set (drop k (items s))"
      by (rule set_drop_subset_set_drop) simp
    with Cons.prems that show "r \<notin> set (drop (Suc k) (items s'))" by auto
  qed
  have here: "items s ! k \<noteq> r" if "k < length (items s)"
    using Cons.prems that by (metis Cons_nth_drop_Suc list.set_intros(1))
  show ?case
    using step [of "element_LoadFromXmlJsObject (items s ! k) x s"] here
    by (auto simp: element_LoadFromXmlJsObject_def getItem_def Count_def add.commute Let_def)
qed

lemma entry_accepted_load:
  "entry_accepted cfg (element_LoadFromXmlJsObject r p s) = entry_accepted cfg s"
  by (simp add: entry_accepted_def incompatible_def element_LoadFromXmlJsObject_def fun_eq_iff
        split: created.splits)

lemma update_loop_rejected:
  "k < length (items s) \<Longrightarrow> \<not> entry_accepted cfg s (items s ! k) x \<Longrightarrow>
   \<exists>e. update_loop cfg (x # xs) (int k) s = Throws e s"
  by (auto simp: entry_accepted_def incompatible_def getItem_def Count_def Let_def)

lemma update_loop_accepted:
  "k < length (items s) \<Longrightarrow> entry_accepted cfg s (items s ! k) x \<Longrightarrow>
   update_loop cfg (x # xs) (int k) s =
     update_loop cfg xs (int (Suc k)) (element_LoadFromXmlJsObject (items s ! k) x s)"
  by (auto simp: entry_accepted_def incompatible_def getItem_def Count_def add.commute Let_def)

lemma update_loop_prefix:
  assumes "k + length xs = length (items s)" and "i < length xs" and "distinct (items s)"
    and "\<forall>j<i. entry_accepted cfg s (items s ! (k + j)) (xs ! j)"
    and "\<not> entry_accepted cfg s (items s ! (k + i)) (xs ! i)"
  shows "\<exists>e s'. update_loop cfg xs (int k) s = Throws e s' \<and>
           (\<forall>j<i. loaded s' (items s ! (k + j)) = Some (xs ! j))"
  using assms
proof (induction xs arbitrary: k i s)
  case Nil
  then show ?case by simp
next
  case (Cons x xs)
  have k: "k < length (items s)" using Cons.prems(1) by simp
  show ?case
  proof (cases i)
    case 0
    with Cons.prems(5) have "\<not> entry_accepted cfg s (items s ! k) x" by simp
    from update_loop_rejected [OF k this]
    obtain e where "update_loop cfg (x # xs) (int k) s = Throws e s" by blast
    moreover have "\<forall>j<i. loaded s (items s ! (k + j)) = Some ((x # xs) ! j)"
      using 0 by simp
    ultimately show ?thesis by blast
  next
    case (Suc i')
    let ?s1 = "element_LoadFromXmlJsObject (items s ! k) x s"
    have it: "items ?s1 = items s" by (simp add: element_LoadFromXmlJsObject_def)
    have acc: "entry_accepted cfg s (items s ! k) x" using Cons.prems(4) Suc by force
    have run: "update_loop cfg (x # xs) (int k) s = update_loop cfg xs (int (Suc k)) ?s1"
      by (rule update_loop_accepted [OF k acc])
    have "\<exists>e s'. update_loop cfg xs (int (Suc k)) ?s1 = Throws e s' \<and>
            (\<forall>j<i'. loaded s' (items ?s1 ! (Suc k + j)) = Some (xs ! j))"
    proof (rule Cons.IH)
      show "Suc k + length xs = length (items ?s1)" using Cons.prems(1) it by simp
      show "i' < length xs" using Cons.prems(2) Suc by simp
      show "distinct (items ?s1)" using Cons.prems(3) it by simp
      show "\<forall>j<i'. entry_accepted cfg ?s1 (items ?s1 ! (Suc k + j)) (xs ! j)"
        using Cons.prems(4) Suc it by (auto simp: entry_accepted_load)
      show "\<not> entry_accepted cfg ?s1 (items ?s1 ! (Suc k + i')) (xs ! i')"
        using Cons.prems(5) Suc it by (simp add: entry_accepted_load)
    qed
    then obtain e s' where res: "update_loop cfg xs (int (Suc k)) ?s1 = Throws e s'"
      and later: "\<forall>j<i'. loaded s' (items s ! (Suc k + j)) = Some (xs ! j)"
      using it by auto
    have "items s ! k \<notin> set (drop (Suc k) (items ?s1))"
      using Cons.prems(3) k it
      by (metis Cons_nth_drop_Suc distinct.simps(2) distinct_drop)
    then have "loaded (state_of (update_loop cfg xs (int (Suc k)) ?s1)) (items s ! k) =
               loaded ?s1 (items s ! k)"
      by (rule update_loop_loaded_frame)
    then have first: "loaded s' (items s ! k) = Some x"
      using res by (simp add: element_LoadFromXmlJsObject_def)
    have "\<forall>j<i. loaded s' (items s ! (k + j)) = Some ((x # xs) ! j)"
    proof (intro allI impI)
      fix j assume "j < i"
      show "loaded s' (items s ! (k + j)) = Some ((x # xs) ! j)"
      proof (cases j)
        case 0
        then show ?thesis using first by simp
      next
        case (Suc j')
        then have "j' < i'" using \<open>j < i\<close> \<open>i = Suc i'\<close> by simp
        with later Suc show ?thesis by simp
      qed
    qed
    moreover from run res have "update_loop cfg (x # xs) (int k) s = Throws e s'"
      by (simp only:)
    ultimately show ?thesis by blast
  qed
qed

text \<open>
  Claim C9. When the entries before position \<open>i\<close> are accepted and the entry at \<open>i\<close> is
  not (it is null, or resolves to no type or to an incompatible one),
  \<^verbatim>\<open>UpdateFromXmlJsObjectCollection\<close> throws, and in the state it leaves behind the
  elements before position \<open>i\<close> have loaded their entries of the payload.
\<close>

theorem UpdateFrom_no_rollback:
  assumes "length collection = Count s" and "i < length collection" and "distinct (items s)"
    and "\<forall>j<i. entry_accepted cfg s (items s ! j) (collection ! j)"
    and "\<not> entry_accepted cfg s (items s ! i) (collection ! i)"
  shows "\<exists>e s'. UpdateFromXmlJsObjectCollection cfg (JArr collection) s = Throws e s' \<and>
           (\<forall>j<i. loaded s' (items s ! j) = Some (collection ! j))"
proof -
  have "\<exists>e s'. update_loop cfg collection (int 0) s = Throws e s' \<and>
          (\<forall>j<i. loaded s' (items s ! (0 + j)) = Some (collection ! j))"
    by (rule update_loop_prefix) (use assms in \<open>simp_all add: Count_def\<close>)
  then show ?thesis
    using assms(1)
    by (simp add: UpdateFromXmlJsObjectCollection_def normalize_payload_def isArray_def entries_def)
qed

theorem UpdateFrom_no_rollback_witness:
  "length update_payload = Count typed_state \<and> (1::nat) < length update_payload \<and>
   distinct (items typed_state) \<and>
   entry_accepted example_config typed_state (items typed_state ! 0) (update_payload ! 0) \<and>
   \<not> entry_accepted example_config typed_state (items typed_state ! 1) (update_payload ! 1) \<and>
   UpdateFromXmlJsObjectCollection example_config (JArr update_payload) typed_state =
     Throws PropertyTypeIncompatibleWhenUpdatingCollection
       (typed_state\<lparr>loaded := (loaded typed_state)(0 := Some (update_payload ! 0))\<rparr>) \<and>
   entry_accepted example_config typed_state (items typed_state ! 1) (update_payload_null ! 1) \<and>
   \<not> entry_accepted example_config typed_state (items typed_state ! 2) (update_payload_null ! 2) \<and>
   UpdateFromXmlJsObjectCollection example_config (JArr update_payload_null) typed_state =
     Throws ServiceLocalException
       (typed_state\<lparr>loaded := (loaded typed_state)
          (0 := Some (update_payload_null ! 0), 1 := Some (update_payload_null ! 1))\<rparr>)"
  using UpdateFrom_no_rollback [where collection = update_payload and s = typed_state and i = 1
      and cfg = example_config]
    UpdateFrom_no_rollback [where collection = update_payload_null and s = typed_state and i = 2
      and cfg = example_config]
  by (simp add: update_payload_def update_payload_null_def typed_state_def new_collection_def
        example_config_def Count_def entry_accepted_def incompatible_def resolve_def
        UpdateFromXmlJsObjectCollection_def normalize_payload_def isArray_def entries_def
        getItem_def element_LoadFromXmlJsObject_def Let_def)

section \<open>The change log and the "changed" signal\<close>





end
